theory Spec2Isabelle
  imports Complex_Main "HOL-Library.Word" "HOL-Library.Multiset"
begin

section \<open>Speech command recognition demo: the audio-to-prediction pipeline\<close>

text \<open>
  A shallow embedding of \<^verbatim>\<open>gui/visualization.py\<close>. Exceptions are values of
  \<open>py_error\<close>, and a computation that may raise returns \<open>py_error + 'a\<close>
  (\<open>Inl\<close> is the exception). The library calls whose code is outside the repository
  (\<^verbatim>\<open>librosa.load\<close>, \<^verbatim>\<open>librosa.feature.mfcc\<close>, \<^verbatim>\<open>model.predict\<close>,
  \<^verbatim>\<open>np.argpartition\<close>) are parameters of the functions that call them. Samples and
  confidences are values of a linearly ordered type with a zero; the script only moves,
  pads and compares them, and a NaN among them is not modelled.
\<close>

subsection \<open>Exceptions and data\<close>

text \<open>
  \<open>ValueError\<close>, \<open>IndexError\<close>, \<open>OverflowError\<close> and \<open>KeyError\<close> are the Python
  exceptions raised by the operations of the script itself. \<open>DecodeError\<close> stands for
  whatever the audio decoder raises on bytes it cannot parse and \<open>InferenceError\<close> for
  whatever the network raises on an input of the wrong shape.
\<close>

datatype py_error =
  ValueError | IndexError | OverflowError | KeyError | DecodeError | InferenceError

type_synonym byte = "8 word"

text \<open>A two-dimensional array is the list of its rows.\<close>

type_synonym 'a matrix = "'a list list"

definition SAMPLES_TO_CONSIDER :: nat where
  "SAMPLES_TO_CONSIDER = 22050"

definition mapping :: "string list" where
  "mapping =
    [''right'', ''eight'', ''cat'', ''tree'', ''backward'', ''learn'', ''bed'', ''happy'',
     ''go'', ''dog'', ''no'', ''wow'', ''follow'', ''nine'', ''left'', ''stop'', ''three'',
     ''sheila'', ''one'', ''bird'', ''zero'', ''seven'', ''up'', ''visual'', ''marvin'',
     ''two'', ''house'', ''down'', ''six'', ''yes'', ''on'', ''five'', ''forward'', ''off'',
     ''four'']"

subsection \<open>Raising computations over lists\<close>

text \<open>
  \<open>map_raise f xs\<close> applies \<open>f\<close> from left to right and stops at the first exception,
  as a comprehension or a vectorised numpy operation does.
\<close>

fun map_raise :: "('a \<Rightarrow> py_error + 'b) \<Rightarrow> 'a list \<Rightarrow> py_error + 'b list" where
  "map_raise f [] = Inr []"
| "map_raise f (x # xs) =
     (case f x of
        Inl e \<Rightarrow> Inl e
      | Inr y \<Rightarrow> (case map_raise f xs of Inl e \<Rightarrow> Inl e | Inr ys \<Rightarrow> Inr (y # ys)))"

text \<open>
  \<^verbatim>\<open>a[i]\<close> on a one-dimensional numpy array: a negative index counts from the end,
  and an index outside \<open>[-n, n)\<close> raises IndexError.
\<close>

definition index_at :: "'a list \<Rightarrow> int \<Rightarrow> py_error + 'a" where
  "index_at a i =
     (let n = int (length a) in
      if - n \<le> i \<and> i < n then Inr (a ! nat (if i < 0 then i + n else i))
      else Inl IndexError)"

text \<open>\<^verbatim>\<open>a[ind]\<close> with an integer array \<open>ind\<close>: position \<open>k\<close> of the result is \<open>a[ind[k]]\<close>.\<close>

definition fancy_index :: "'a list \<Rightarrow> int list \<Rightarrow> py_error + 'a list" where
  "fancy_index a ind = map_raise (index_at a) ind"

subsection \<open>The recording branch: from the recorder's map to bytes\<close>

text \<open>
  The recorder delivers \<^verbatim>\<open>recorded_file['arr']\<close>, a dict from sample index to byte
  value. A dict keeps insertion order, so it is the list of its items in that order,
  with integer keys and values.
\<close>

type_synonym sample_map = "(int \<times> int) list"

text \<open>
  \<^verbatim>\<open>zip(*items)\<close> on a list of pairs: two tuples, all the keys and all the values,
  and no tuple at all when there is no item.
\<close>

definition zip_star :: "sample_map \<Rightarrow> int list list" where
  "zip_star items = (if items = [] then [] else [map fst items, map snd items])"

text \<open>\<^verbatim>\<open>ind, val = ...\<close>: unpacking anything but two values raises ValueError.\<close>

fun unpack2 :: "'a list \<Rightarrow> py_error + ('a \<times> 'a)" where
  "unpack2 [a, b] = Inr (a, b)"
| "unpack2 _ = Inl ValueError"

text \<open>
  \<^verbatim>\<open>np.array(ind, dtype=int)\<close> (line 149): the keys as an array of 64-bit signed
  integers; a key outside that range raises OverflowError.
\<close>

definition fits_int64 :: "int \<Rightarrow> bool" where
  "fits_int64 i = (- (2 ^ 63) \<le> i \<and> i < 2 ^ 63)"

definition int_array :: "int list \<Rightarrow> py_error + int list" where
  "int_array ind = (if list_all fits_int64 ind then Inr ind else Inl OverflowError)"

text \<open>\<^verbatim>\<open>int(v).to_bytes(1, "big")\<close>: one unsigned byte, OverflowError outside 0..255.\<close>

definition to_bytes1 :: "int \<Rightarrow> py_error + byte" where
  "to_bytes1 v = (if 0 \<le> v \<and> v < 256 then Inr (word_of_int v) else Inl OverflowError)"

text \<open>
  Lines 148 to 153 of the script: the keys converted to an integer array, the value
  array indexed by it, each selected value turned into one byte.
\<close>

definition recording_wav_bytes :: "sample_map \<Rightarrow> py_error + byte list" where
  "recording_wav_bytes arr =
     (case unpack2 (zip_star arr) of
        Inl e \<Rightarrow> Inl e
      | Inr (ind, val) \<Rightarrow>
          (case int_array ind of
             Inl e \<Rightarrow> Inl e
           | Inr ind \<Rightarrow>
               (case fancy_index val ind of
                  Inl e \<Rightarrow> Inl e
                | Inr sorted_ints \<Rightarrow> map_raise to_bytes1 sorted_ints)))"

subsection \<open>Feature extraction\<close>

text \<open>
  Lines 76 to 80 of \<^verbatim>\<open>preprocess\<close>: the decoded signal cut to its first
  \<open>SAMPLES_TO_CONSIDER\<close> samples, or padded on the right with zeros
  (\<^verbatim>\<open>np.pad(signal, (0, SAMPLES_TO_CONSIDER - signal.shape[0]))\<close>).
\<close>

definition consistent_length :: "'a::zero list \<Rightarrow> 'a list" where
  "consistent_length signal =
     (if length signal \<ge> SAMPLES_TO_CONSIDER then take SAMPLES_TO_CONSIDER signal
      else signal @ replicate (SAMPLES_TO_CONSIDER - length signal) 0)"

text \<open>\<^verbatim>\<open>a.T\<close> of a two-dimensional array: entry \<open>(j, i)\<close> of the result is entry \<open>(i, j)\<close>.\<close>

definition ncols :: "'a matrix \<Rightarrow> nat" where
  "ncols a = (case a of [] \<Rightarrow> 0 | r # _ \<Rightarrow> length r)"

definition T :: "'a matrix \<Rightarrow> 'a matrix" where
  "T a = map (\<lambda>j. map (\<lambda>row. row ! j) a) [0..<ncols a]"

text \<open>
  \<open>has_shape a r c\<close>: the array has \<open>r\<close> rows of \<open>c\<close> entries each.
\<close>

definition has_shape :: "'a matrix \<Rightarrow> nat \<Rightarrow> nat \<Rightarrow> bool" where
  "has_shape a r c = (length a = r \<and> list_all (\<lambda>row. length row = c) a)"

text \<open>
  \<^verbatim>\<open>preprocess(file_path, num_mfcc, n_fft, hop_length)\<close>. The decoder \<open>load\<close>
  (\<^verbatim>\<open>librosa.load\<close> on the bytes: the samples and the sample rate, or an exception)
  and the transform \<open>mfcc\<close> (\<^verbatim>\<open>librosa.feature.mfcc\<close>: signal, sample rate, number of
  coefficients, window size, hop length) are parameters.
\<close>

type_synonym 's decoder = "byte list \<Rightarrow> py_error + ('s list \<times> nat)"
type_synonym 's transform = "'s list \<Rightarrow> nat \<Rightarrow> nat \<Rightarrow> nat \<Rightarrow> nat \<Rightarrow> 's matrix"

definition preprocess ::
  "'s::zero decoder \<Rightarrow> 's transform \<Rightarrow> byte list \<Rightarrow> nat \<Rightarrow> nat \<Rightarrow> nat \<Rightarrow> py_error + 's matrix" where
  "preprocess load mfcc file_path num_mfcc n_fft hop_length =
     (case load file_path of
        Inl e \<Rightarrow> Inl e
      | Inr (signal, sample_rate) \<Rightarrow>
          (let signal = consistent_length signal;
               MFCCs = mfcc signal sample_rate num_mfcc n_fft hop_length
           in Inr (T MFCCs)))"

subsection \<open>Inference\<close>

text \<open>
  \<^verbatim>\<open>MFCCs[np.newaxis, ..., np.newaxis]\<close>: one more axis in front and one more behind.
\<close>

definition newaxis :: "'a matrix \<Rightarrow> 'a list list list list" where
  "newaxis MFCCs = [map (map (\<lambda>x. [x])) MFCCs]"

text \<open>
  \<^verbatim>\<open>np.argmax\<close> of a flattened array: the first position of the largest entry;
  ValueError on an empty array.
\<close>

fun argmax_from :: "'a::linorder list \<Rightarrow> nat \<Rightarrow> nat \<Rightarrow> 'a \<Rightarrow> nat" where
  "argmax_from [] i best v = best"
| "argmax_from (x # xs) i best v =
     (if v < x then argmax_from xs (Suc i) i x else argmax_from xs (Suc i) best v)"

definition argmax :: "'a::linorder list \<Rightarrow> py_error + nat" where
  "argmax a = (case a of [] \<Rightarrow> Inl ValueError | x # xs \<Rightarrow> Inr (argmax_from xs 1 0 x))"

text \<open>\<^verbatim>\<open>mapping[i]\<close> for an index that is not negative.\<close>

definition list_item :: "'a list \<Rightarrow> nat \<Rightarrow> py_error + 'a" where
  "list_item xs i = (if i < length xs then Inr (xs ! i) else Inl IndexError)"

text \<open>
  \<^verbatim>\<open>CNN_predict(file_path)\<close>. The network \<open>model_predict\<close> (\<^verbatim>\<open>model.predict\<close> of the
  loaded model: an array of batch by classes, or an exception) is a parameter.
\<close>

type_synonym 's network = "'s list list list list \<Rightarrow> py_error + 's matrix"

definition CNN_predict ::
  "'s::{zero,linorder} decoder \<Rightarrow> 's transform \<Rightarrow> 's network \<Rightarrow> byte list
     \<Rightarrow> py_error + (string \<times> 's list)" where
  "CNN_predict load mfcc model_predict file_path =
     (case preprocess load mfcc file_path 13 2048 512 of
        Inl e \<Rightarrow> Inl e
      | Inr MFCCs \<Rightarrow>
          (case model_predict (newaxis MFCCs) of
             Inl e \<Rightarrow> Inl e
           | Inr predictions \<Rightarrow>
               (case argmax (concat predictions) of
                  Inl e \<Rightarrow> Inl e
                | Inr predicted_index \<Rightarrow>
                    (case list_item mapping predicted_index of
                       Inl e \<Rightarrow> Inl e
                     | Inr predicted_keyword \<Rightarrow>
                         Inr (predicted_keyword, concat predictions)))))"

subsection \<open>The chart of the ten best labels\<close>

text \<open>
  What the script writes to the page: a line of text, or a bar chart given by the rows
  of its data frame (keyword, confidence) and the sort order requested for its y axis.
\<close>

datatype 's ui_element = Markdown string | Chart "(string \<times> 's) list" string

text \<open>
  \<^verbatim>\<open>np.argpartition(a, kth)\<close> is a parameter: an array of indices, or an exception.
  numpy documents that the result is a permutation of the positions of \<open>a\<close> in which
  position \<open>k\<close> (\<open>kth\<close> counted from the end when negative) holds an entry in its sorted
  place, no larger entry comes before it and no smaller one after it, and that \<open>kth\<close>
  out of bounds raises ValueError; the order inside the two parts is left open.
\<close>

type_synonym 's partitioner = "'s list \<Rightarrow> int \<Rightarrow> py_error + int list"



text \<open>
  One function that meets this contract, used to run the script on concrete inputs:
  the positions of \<open>a\<close> in the order of a stable sort by their entries.
\<close>

definition sorting_argpartition :: "'s::linorder partitioner" where
  "sorting_argpartition a kth =
     (let n = int (length a) in
      if - n \<le> kth \<and> kth < n
      then Inr (map (\<lambda>p. int (fst p)) (sort_key snd (enumerate 0 a)))
      else Inl ValueError)"

text \<open>\<^verbatim>\<open>r[-s:]\<close>: the last \<open>s\<close> entries, all of them when there are fewer.\<close>

definition last_n :: "nat \<Rightarrow> 'a list \<Rightarrow> 'a list" where
  "last_n s r = drop (length r - s) r"

text \<open>Lines 131 to 135 of \<^verbatim>\<open>create_visualization\<close>: the rows of the data frame.\<close>

definition chart_data ::
  "'s partitioner \<Rightarrow> 's list \<Rightarrow> py_error + (string \<times> 's) list" where
  "chart_data argpartition confidences =
     (let s = 10 in
      case argpartition confidences (- int s) of
        Inl e \<Rightarrow> Inl e
      | Inr part \<Rightarrow>
          (let ind = last_n s part in
           case fancy_index mapping ind of
             Inl e \<Rightarrow> Inl e
           | Inr kwrds \<Rightarrow>
               (case fancy_index confidences ind of
                  Inl e \<Rightarrow> Inl e
                | Inr confs \<Rightarrow> Inr (zip kwrds confs))))"

text \<open>
  \<^verbatim>\<open>create_visualization(file)\<close> returns what it wrote to the page and the exception
  that ended it, if any. The sentence with the predicted word is written before the rows
  of the chart are computed.
\<close>

definition create_visualization ::
  "'s::{zero,linorder} decoder \<Rightarrow> 's transform \<Rightarrow> 's network \<Rightarrow> 's partitioner \<Rightarrow> byte list
     \<Rightarrow> 's ui_element list \<times> py_error option" where
  "create_visualization load mfcc model_predict argpartition file =
     (case CNN_predict load mfcc model_predict file of
        Inl e \<Rightarrow> ([], Some e)
      | Inr (predicted_keyword, confidences) \<Rightarrow>
          (let heard = Markdown (''I heard the word '' @ [CHR 0x22] @ predicted_keyword @ [CHR 0x22])
           in case chart_data argpartition confidences of
                Inl e \<Rightarrow> ([heard], Some e)
              | Inr data \<Rightarrow> ([heard, Chart data ''-x''], None)))"

subsection \<open>The output column of the page\<close>

text \<open>
  The value of the recorder component: a dict (the list of its items), or anything else.
\<close>

datatype component_value = NotADict | Dict "(string \<times> sample_map) list"

text \<open>\<^verbatim>\<open>d[key]\<close> on a dict: KeyError when the key is missing.\<close>

definition dict_item :: "('k \<times> 'v) list \<Rightarrow> 'k \<Rightarrow> py_error + 'v" where
  "dict_item d k = (case map_of d k of None \<Rightarrow> Inl KeyError | Some v \<Rightarrow> Inr v)"

text \<open>
  Lines 142 to 154: the block under \<^verbatim>\<open>with output:\<close>, given the uploaded file's bytes
  (\<open>None\<close> when no file is uploaded) and the recorder's value.
\<close>

definition output_column ::
  "'s::{zero,linorder} decoder \<Rightarrow> 's transform \<Rightarrow> 's network \<Rightarrow> 's partitioner
     \<Rightarrow> byte list option \<Rightarrow> component_value \<Rightarrow> 's ui_element list \<times> py_error option" where
  "output_column load mfcc model_predict argpartition uploaded_file recorded_file =
     (let title = Markdown ''## Output'' in
      case uploaded_file of
        Some uploaded_bytes \<Rightarrow>
          (let (written, raised) =
                 create_visualization load mfcc model_predict argpartition uploaded_bytes
           in (title # written, raised))
      | None \<Rightarrow>
          (case recorded_file of
             NotADict \<Rightarrow> ([title], None)
           | Dict d \<Rightarrow>
               (case dict_item d ''arr'' of
                  Inl e \<Rightarrow> ([title], Some e)
                | Inr arr \<Rightarrow>
                    (case recording_wav_bytes arr of
                       Inl e \<Rightarrow> ([title], Some e)
                     | Inr wav_bytes \<Rightarrow>
                         (let (written, raised) =
                                create_visualization load mfcc model_predict argpartition wav_bytes
                          in (title # written, raised))))))"

subsection \<open>Example inputs\<close>

text \<open>
  Stand-ins for the library calls, used to run the script on concrete inputs: a decoder
  that reads each byte as one sample at 22050 Hz, a transform that returns zeros in the
  shape of a centred short-time transform (one frame more than the number of whole hops
  in the signal), and a network that answers every input with the same 35 confidences.
\<close>

definition example_load :: "real decoder" where
  "example_load b = Inr (map (\<lambda>w. real (unat w)) b, 22050)"

definition example_mfcc :: "real transform" where
  "example_mfcc sig sr n_mfcc n_fft hop = replicate n_mfcc (replicate (1 + length sig div hop) 0)"

definition example_confidences :: "real list" where
  "example_confidences =
     [7 / 1000, 7 / 1000, 120 / 1000, 7 / 1000, 7 / 1000, 7 / 1000, 60 / 1000,
      6 / 1000, 250 / 1000, 90 / 1000, 150 / 1000, 6 / 1000, 6 / 1000, 6 / 1000,
      40 / 1000, 30 / 1000, 6 / 1000, 6 / 1000, 6 / 1000, 25 / 1000, 6 / 1000,
      6 / 1000, 45 / 1000, 6 / 1000, 6 / 1000, 6 / 1000, 6 / 1000, 6 / 1000,
      6 / 1000, 35 / 1000, 6 / 1000, 6 / 1000, 6 / 1000, 6 / 1000, 6 / 1000]"

definition example_model :: "real network" where
  "example_model x = Inr [example_confidences]"

section \<open>Properties\<close>

subsection \<open>Auxiliary facts\<close>


lemma map_raise_Inl:
  assumes "x \<in> set xs" and "f x = Inl e"
    and "\<forall>y\<in>set xs. \<forall>e'. f y = Inl e' \<longrightarrow> e' = e"
  shows "map_raise f xs = Inl e"
  using assms
proof (induction xs)
  case Nil
  then show ?case
    by simp
next
  case (Cons a xs)
  show ?case
  proof (cases "f a")
    case (Inl e')
    with Cons.prems(3) have "e' = e"
      by simp
    with Inl show ?thesis
      by simp
  next
    case (Inr y)
    with Cons.prems(1,2) have "x \<in> set xs"
      by auto
    moreover from Cons.prems(3)
    have "\<forall>y\<in>set xs. \<forall>e'. f y = Inl e' \<longrightarrow> e' = e"
      by simp
    ultimately have "map_raise f xs = Inl e"
      using Cons.IH Cons.prems(2) by blast
    with Inr show ?thesis
      by simp
  qed
qed

lemma map_raise_length: "map_raise f xs = Inr ys \<Longrightarrow> length ys = length xs"
proof (induction xs arbitrary: ys)
  case Nil
  then show ?case
    by simp
next
  case (Cons x xs)
  from Cons.prems obtain y zs
    where "f x = Inr y" and "map_raise f xs = Inr zs" and "ys = y # zs"
    by (simp split: sum.splits)
  with Cons.IH show ?case
    by simp
qed


lemma length_consistent_length: "length (consistent_length s) = SAMPLES_TO_CONSIDER"
  by (simp add: consistent_length_def)

lemma has_shape_T:
  assumes "has_shape a r c" and "0 < r"
  shows "has_shape (T a) c r"
proof -
  from assms obtain x xs where "a = x # xs"
    by (cases a) (auto simp: has_shape_def)
  with assms have "ncols a = c"
    by (simp add: has_shape_def ncols_def)
  with assms show ?thesis
    by (simp add: has_shape_def T_def list_all_iff)
qed

lemma nth_T:
  assumes "has_shape a r c" and "i < r" and "j < c"
  shows "T a ! j ! i = a ! i ! j"
proof -
  from assms obtain x xs where "a = x # xs"
    by (cases a) (auto simp: has_shape_def)
  with assms have "ncols a = c"
    by (simp add: has_shape_def ncols_def)
  with assms show ?thesis
    by (simp add: has_shape_def T_def)
qed

















subsection \<open>The recording branch\<close>

text \<open>
  C1. The claim: for every non-empty map the bytes come out ordered by ascending sample
  index, whatever the insertion order; \<open>{0:10, 1:20, 2:30}\<close> gives \<open>[10,20,30]\<close> and the
  map inserted as \<open>{2:5, 0:1, 1:3}\<close> gives \<open>[1,3,5]\<close>. The script computes
  \<^verbatim>\<open>sorted_ints = val[ind]\<close>: position \<open>k\<close> of the output is the value stored at
  insertion position \<open>ind[k]\<close>, which is the order of the indices only when the keys
  already come in order. The first example holds; on the second the script yields
  \<open>[3,5,1]\<close>.
\<close>

theorem recording_wav_bytes_shuffled:
  "recording_wav_bytes [(0, 10), (1, 20), (2, 30)] = Inr [10, 20, 30] \<and>
   recording_wav_bytes [(2, 5), (0, 1), (1, 3)] = Inr [3, 5, 1] \<and>
   recording_wav_bytes [(2, 5), (0, 1), (1, 3)] \<noteq> Inr [1, 3, 5]"
  by code_simp

text \<open>
  C2. On the empty map the reconstruction fails (\<^verbatim>\<open>zip()\<close> yields nothing, so the
  unpacking into \<open>ind, val\<close> raises ValueError, the script's empty-recording error), and
  on no map at all does it succeed with a zero-length byte stream.
\<close>

theorem recording_wav_bytes_empty:
  "recording_wav_bytes [] = Inl ValueError \<and> recording_wav_bytes arr \<noteq> Inr []"
proof
  show "recording_wav_bytes [] = Inl ValueError"
    by (simp add: recording_wav_bytes_def zip_star_def)
  show "recording_wav_bytes arr \<noteq> Inr []"
  proof (cases "arr = []")
    case True
    then show ?thesis
      by (simp add: recording_wav_bytes_def zip_star_def)
  next
    case False
    then show ?thesis
      by (auto simp: recording_wav_bytes_def zip_star_def fancy_index_def int_array_def
          split: sum.splits if_splits dest!: map_raise_length)
  qed
qed

text \<open>
  C10, as the script has it. A map in which some index is at least the number of
  entries never yields a byte stream, neither zero-filled nor compacted. When every
  index fits a 64-bit signed integer the failure is IndexError (the index is out of
  bounds for the value array); when some index does not, the conversion of the keys at
  line 149 raises OverflowError before anything is indexed.
\<close>

theorem recording_wav_bytes_gap:
  assumes "(k, v) \<in> set arr" and "int (length arr) \<le> k"
  shows "(list_all fits_int64 (map fst arr) \<longrightarrow> recording_wav_bytes arr = Inl IndexError) \<and>
         (\<not> list_all fits_int64 (map fst arr) \<longrightarrow> recording_wav_bytes arr = Inl OverflowError)"
proof (intro conjI impI)
  from assms have ne: "arr \<noteq> []"
    by auto
  {
    assume fits: "list_all fits_int64 (map fst arr)"
    have fails: "index_at (map snd arr) k = Inl IndexError"
      using assms by (simp add: index_at_def)
    have key: "k \<in> set (map fst arr)"
      using assms by force
    have only: "\<forall>y\<in>set (map fst arr). \<forall>e'.
        index_at (map snd arr) y = Inl e' \<longrightarrow> e' = IndexError"
      by (auto simp: index_at_def Let_def split: if_splits)
    have "fancy_index (map snd arr) (map fst arr) = Inl IndexError"
      unfolding fancy_index_def by (rule map_raise_Inl [OF key fails only])
    with ne fits show "recording_wav_bytes arr = Inl IndexError"
      by (simp add: recording_wav_bytes_def zip_star_def int_array_def)
  }
  {
    assume "\<not> list_all fits_int64 (map fst arr)"
    with ne show "recording_wav_bytes arr = Inl OverflowError"
      by (simp add: recording_wav_bytes_def zip_star_def int_array_def)
  }
qed

theorem recording_wav_bytes_gap_witness:
  "(5, 3) \<in> set [(0, 1), (5, 3)] \<and> int (length [(0 :: int, 1 :: int), (5, 3)]) \<le> 5 \<and>
   list_all fits_int64 (map fst [(0, 1), (5, 3)]) \<and>
   recording_wav_bytes [(0, 1), (5, 3)] = Inl IndexError \<and>
   (2 ^ 63, 3) \<in> set [(0, 1), (2 ^ 63, 3)] \<and>
   int (length [(0 :: int, 1 :: int), (2 ^ 63, 3)]) \<le> 2 ^ 63 \<and>
   \<not> list_all fits_int64 (map fst [(0, 1), (2 ^ 63, 3)]) \<and>
   recording_wav_bytes [(0, 1), (2 ^ 63, 3)] = Inl OverflowError"
  using recording_wav_bytes_gap [of 5 3 "[(0, 1), (5, 3)]"]
    recording_wav_bytes_gap [of "2 ^ 63" 3 "[(0, 1), (2 ^ 63, 3)]"]
  by (simp add: fits_int64_def)

text \<open>
  The claim as stated has IndexError for every such map. The map \<open>{0: 1, 2^63: 3}\<close> has
  an index beyond its two entries, and the script fails on it with OverflowError, at
  the conversion of the keys.
\<close>

theorem recording_wav_bytes_gap_overflow:
  "(2 ^ 63, 3) \<in> set [(0 :: int, 1 :: int), (2 ^ 63, 3)] \<and>
   int (length [(0 :: int, 1 :: int), (2 ^ 63, 3)]) \<le> 2 ^ 63 \<and>
   recording_wav_bytes [(0, 1), (2 ^ 63, 3)] = Inl OverflowError \<and>
   recording_wav_bytes [(0, 1), (2 ^ 63, 3)] \<noteq> Inl IndexError"
  by (simp add: recording_wav_bytes_def zip_star_def int_array_def fits_int64_def)

subsection \<open>Feature extraction\<close>

text \<open>
  C3. Whatever the decoder returns, the transform in \<open>preprocess\<close> is applied to a
  signal of exactly 22050 samples: the first 22050 samples of a decoded signal that has
  at least that many, and otherwise the decoded signal followed by zeros up to that
  length; so a decoded signal of 11025 samples (half a second at 22050 Hz) reaches the
  transform with a second half of zeros.
\<close>

theorem preprocess_normalises_signal:
  assumes "load file = Inr (signal, sr)"
  shows "(22050 \<le> length signal \<longrightarrow>
           preprocess load mfcc file num_mfcc n_fft hop_length =
             Inr (T (mfcc (take 22050 signal) sr num_mfcc n_fft hop_length)) \<and>
           length (take 22050 signal) = 22050) \<and>
         (length signal < 22050 \<longrightarrow>
           preprocess load mfcc file num_mfcc n_fft hop_length =
             Inr (T (mfcc (signal @ replicate (22050 - length signal) 0) sr
                    num_mfcc n_fft hop_length)) \<and>
           length (signal @ replicate (22050 - length signal) 0) = 22050) \<and>
         (length signal = 11025 \<longrightarrow>
           preprocess load mfcc file num_mfcc n_fft hop_length =
             Inr (T (mfcc (signal @ replicate 11025 0) sr num_mfcc n_fft hop_length)))"
  using assms by (simp add: preprocess_def consistent_length_def SAMPLES_TO_CONSIDER_def)

text \<open>
  The witness uses a transform that returns the signal it is given as the one row of its
  result, so that the result of \<open>preprocess\<close> shows the samples the transform received.
\<close>

theorem preprocess_normalises_signal_witness:
  "preprocess (\<lambda>b. Inr (replicate 44100 (1 :: real), 22050)) (\<lambda>sig sr n_mfcc n_fft hop. [sig])
     [] 13 2048 512 = Inr (T [replicate 22050 1]) \<and>
   preprocess (\<lambda>b. Inr (replicate 11025 (1 :: real), 22050)) (\<lambda>sig sr n_mfcc n_fft hop. [sig])
     [] 13 2048 512 = Inr (T [replicate 11025 1 @ replicate 11025 0])"
  using preprocess_normalises_signal [of "\<lambda>b. Inr (replicate 44100 (1 :: real), 22050)" "[]"
      "replicate 44100 (1 :: real)" 22050 "\<lambda>sig sr n_mfcc n_fft hop. [sig]" 13 2048 512]
    preprocess_normalises_signal [of "\<lambda>b. Inr (replicate 11025 (1 :: real), 22050)" "[]"
      "replicate 11025 (1 :: real)" 22050 "\<lambda>sig sr n_mfcc n_fft hop. [sig]" 13 2048 512]
  by simp

text \<open>
  C7. For every buffer the decoder accepts, \<open>preprocess\<close> with its default parameters
  returns a matrix of one fixed shape, time steps by 13 coefficients, time first. The
  transform is the library's: all that is assumed of it is that the shape of its result
  is the number of coefficients by a number of frames \<open>frames\<close> that depends only on the
  length of the signal, the window size and the hop length. The number of time steps is
  then \<open>frames 22050 2048 512\<close>, whatever the buffer.
\<close>

theorem preprocess_shape:
  assumes "\<And>sig sr n_mfcc n_fft hop.
             has_shape (mfcc sig sr n_mfcc n_fft hop) n_mfcc (frames (length sig) n_fft hop)"
    and "load file = Inr (signal, sr)"
  shows "\<exists>M. preprocess load mfcc file 13 2048 512 = Inr M \<and>
             has_shape M (frames 22050 2048 512) 13"
proof -
  have "has_shape (mfcc (consistent_length signal) sr 13 2048 512) 13 (frames 22050 2048 512)"
    using assms(1) [of "consistent_length signal" sr 13 2048 512]
    by (simp add: length_consistent_length SAMPLES_TO_CONSIDER_def)
  then have "has_shape (T (mfcc (consistent_length signal) sr 13 2048 512))
      (frames 22050 2048 512) 13"
    by (rule has_shape_T) simp
  then show ?thesis
    using assms(2) by (simp add: preprocess_def)
qed

text \<open>
  The witness: a decoder that reads each byte as one sample, and a transform with the
  frame count of a centred short-time transform, one frame more than the number of whole
  hops in the signal. A buffer of three bytes gives 44 time steps of 13 coefficients.
\<close>

theorem preprocess_shape_witness:
  "\<exists>M. preprocess (\<lambda>b. Inr (map (\<lambda>w. real (unat w)) b, 22050))
          (\<lambda>sig sr n_mfcc n_fft hop. replicate n_mfcc (replicate (1 + length sig div hop) 0))
          [1, 2, 3 :: byte] 13 2048 512 = Inr M \<and>
        has_shape M 44 13"
proof -
  have "\<And>sig (sr::nat) n_mfcc (n_fft::nat) hop.
      has_shape (replicate n_mfcc (replicate (1 + length sig div hop) (0::real)))
        n_mfcc (1 + length (sig :: real list) div hop)"
    by (simp add: has_shape_def list_all_iff)
  from preprocess_shape [of
      "\<lambda>sig sr n_mfcc n_fft hop. replicate n_mfcc (replicate (1 + length sig div hop) 0)"
      "\<lambda>n n_fft hop. 1 + n div hop"
      "\<lambda>b. Inr (map (\<lambda>w. real (unat w)) b, 22050)" "[1, 2, 3 :: byte]"
      "map (\<lambda>w. real (unat w)) [1, 2, 3 :: byte]" 22050, OF this]
  show ?thesis
    by simp
qed

subsection \<open>Inference\<close>







subsection \<open>The chart of the ten best labels\<close>




subsection \<open>The output column\<close>

text \<open>
  C9. When a file is uploaded, the output column runs the prediction on the uploaded
  bytes and on nothing else: the recorder's value, whatever it is, changes nothing.
\<close>

theorem upload_takes_precedence:
  "output_column load mfcc model_predict argpartition (Some uploaded_bytes) recorded_file =
     output_column load mfcc model_predict argpartition (Some uploaded_bytes) NotADict \<and>
   output_column load mfcc model_predict argpartition (Some uploaded_bytes) recorded_file =
     (Markdown ''## Output'' #
        fst (create_visualization load mfcc model_predict argpartition uploaded_bytes),
      snd (create_visualization load mfcc model_predict argpartition uploaded_bytes))"
  by (simp add: output_column_def split: prod.splits)

text \<open>
  C5, as the script has it. An exception of the decoder, of the reconstruction of the
  recording or of the network is not caught anywhere in the script: it ends
  \<open>create_visualization\<close> and the run of the output column, and is handed unchanged to
  whoever runs the script. Nothing is tried a second time, and nothing of the prediction
  is written to the page: neither the sentence with the predicted word nor the chart.
\<close>

theorem per_request_errors_propagate:
  "(load b = Inl e \<longrightarrow>
      output_column load mfcc model_predict argpartition (Some b) recorded_file =
        ([Markdown ''## Output''], Some e)) \<and>
   (preprocess load mfcc b 13 2048 512 = Inr MFCCs \<and> model_predict (newaxis MFCCs) = Inl e \<longrightarrow>
      output_column load mfcc model_predict argpartition (Some b) recorded_file =
        ([Markdown ''## Output''], Some e)) \<and>
   (recording_wav_bytes arr = Inl e \<longrightarrow>
      output_column load mfcc model_predict argpartition None (Dict [(''arr'', arr)]) =
        ([Markdown ''## Output''], Some e)) \<and>
   (recording_wav_bytes arr = Inr b \<and> load b = Inl e \<longrightarrow>
      output_column load mfcc model_predict argpartition None (Dict [(''arr'', arr)]) =
        ([Markdown ''## Output''], Some e)) \<and>
   (recording_wav_bytes arr = Inr b \<and> preprocess load mfcc b 13 2048 512 = Inr MFCCs \<and>
      model_predict (newaxis MFCCs) = Inl e \<longrightarrow>
      output_column load mfcc model_predict argpartition None (Dict [(''arr'', arr)]) =
        ([Markdown ''## Output''], Some e))"
  by (simp add: output_column_def create_visualization_def CNN_predict_def preprocess_def
      dict_item_def)

theorem per_request_errors_propagate_witness:
  "output_column (\<lambda>b. Inl DecodeError) example_mfcc example_model sorting_argpartition
     (Some [82, 73, 70, 70]) NotADict = ([Markdown ''## Output''], Some DecodeError) \<and>
   output_column example_load example_mfcc (\<lambda>x. Inl InferenceError) sorting_argpartition
     (Some [82, 73, 70, 70]) NotADict = ([Markdown ''## Output''], Some InferenceError) \<and>
   output_column example_load example_mfcc example_model sorting_argpartition
     None (Dict [(''arr'', [])]) = ([Markdown ''## Output''], Some ValueError) \<and>
   output_column (\<lambda>b. Inl DecodeError) example_mfcc example_model sorting_argpartition
     None (Dict [(''arr'', [(0, 82)])]) = ([Markdown ''## Output''], Some DecodeError) \<and>
   output_column example_load example_mfcc (\<lambda>x. Inl InferenceError) sorting_argpartition
     None (Dict [(''arr'', [(0, 82)])]) = ([Markdown ''## Output''], Some InferenceError)"
proof -
  let ?bad_load = "\<lambda>b :: byte list. Inl DecodeError :: py_error + (real list \<times> nat)"
  let ?bad_model = "\<lambda>x :: real list list list list. Inl InferenceError :: py_error + real matrix"
  have empty: "recording_wav_bytes [] = Inl ValueError"
    by (simp add: recording_wav_bytes_def zip_star_def)
  have one: "recording_wav_bytes [(0, 82)] = Inr [82]"
    by code_simp
  obtain M where M: "preprocess example_load example_mfcc [82, 73, 70, 70] 13 2048 512 = Inr M"
    by (simp add: preprocess_def example_load_def)
  obtain M' where M': "preprocess example_load example_mfcc [82] 13 2048 512 = Inr M'"
    by (simp add: preprocess_def example_load_def)
  note propagate = per_request_errors_propagate
  have "output_column ?bad_load example_mfcc example_model sorting_argpartition
     (Some [82, 73, 70, 70]) NotADict = ([Markdown ''## Output''], Some DecodeError)"
    using propagate [where load = ?bad_load and mfcc = example_mfcc
        and model_predict = example_model and argpartition = sorting_argpartition
        and b = "[82, 73, 70, 70]" and e = DecodeError]
    by simp
  moreover have "output_column example_load example_mfcc ?bad_model sorting_argpartition
     (Some [82, 73, 70, 70]) NotADict = ([Markdown ''## Output''], Some InferenceError)"
    using propagate [where load = example_load and mfcc = example_mfcc
        and b = "[82, 73, 70, 70]" and model_predict = ?bad_model and e = InferenceError
        and argpartition = sorting_argpartition and MFCCs = M] M
    by simp
  moreover have "output_column example_load example_mfcc example_model sorting_argpartition
     None (Dict [(''arr'', [])]) = ([Markdown ''## Output''], Some ValueError)"
    using propagate [where load = example_load and mfcc = example_mfcc
        and model_predict = example_model and argpartition = sorting_argpartition
        and arr = "[]" and e = ValueError] empty
    by simp
  moreover have "output_column ?bad_load example_mfcc example_model sorting_argpartition
     None (Dict [(''arr'', [(0, 82)])]) = ([Markdown ''## Output''], Some DecodeError)"
    using propagate [where load = ?bad_load and mfcc = example_mfcc
        and model_predict = example_model and argpartition = sorting_argpartition
        and arr = "[(0, 82)]" and b = "[82]" and e = DecodeError] one
    by simp
  moreover have "output_column example_load example_mfcc ?bad_model sorting_argpartition
     None (Dict [(''arr'', [(0, 82)])]) = ([Markdown ''## Output''], Some InferenceError)"
    using propagate [where load = example_load and mfcc = example_mfcc and arr = "[(0, 82)]"
        and b = "[82]" and model_predict = ?bad_model and e = InferenceError
        and argpartition = sorting_argpartition and MFCCs = M'] one M'
    by simp
  ultimately show ?thesis
    by blast
qed

text \<open>
  The claim as stated has such an exception caught at the boundary and turned into a
  message for the user. On bytes the decoder rejects, the run ends with the decoder's
  exception still raised, and the script has written nothing but the title of the column.
\<close>

theorem decode_error_not_caught:
  "output_column (\<lambda>b. Inl DecodeError) example_mfcc example_model sorting_argpartition
     (Some [82, 73, 70, 70]) NotADict =
   ([Markdown ''## Output''], Some DecodeError)"
  by (simp add: output_column_def create_visualization_def CNN_predict_def preprocess_def)

end
